theory Spec2Isabelle
  imports
    Main
    "HOL-Library.Multiset"
    "HOL-Library.Char_ord"
    "HOL-Library.List_Lexorder"
    "HOL-Library.Product_Lexorder"
begin

section \<open>Announcements router: data model\<close>

text \<open>
  The module \<^verbatim>\<open>src/backend/routers/announcements.py\<close> serves five endpoints over
  two document collections. A stored document is a Python dict from field names to
  values; the values that occur are JSON null, strings (every field the request models
  carry is \<^verbatim>\<open>str\<close> or \<^verbatim>\<open>Optional[str]\<close>) and the identifier that the store assigns on
  insertion, which the code turns into a string with \<^verbatim>\<open>str(result.inserted_id)\<close>.
\<close>

datatype pyval = PNone | PStr string | PObjectId string

type_synonym doc = "string \<rightharpoonup> pyval"

text \<open>
  The exceptions that can leave an endpoint: the \<^verbatim>\<open>HTTPException\<close>s the code raises, and
  the \<^verbatim>\<open>ValueError\<close> and \<^verbatim>\<open>TypeError\<close> of the Python runtime (\<^verbatim>\<open>strptime\<close>, comparison
  during \<^verbatim>\<open>sort\<close>).
\<close>

datatype exn = HTTPException nat string | ValueError | TypeError

text \<open>The request bodies (pydantic models of lines 17 to 27).\<close>

record AnnouncementCreate =
  title :: string
  message :: string
  start_date :: "string option"
  expiration_date :: string

record AnnouncementUpdate =
  upd_title :: "string option"
  upd_message :: "string option"
  upd_start_date :: "string option"
  upd_expiration_date :: "string option"

subsection \<open>Python built-ins used by the module\<close>

text \<open>\<^verbatim>\<open>d.get(k)\<close> is \<^verbatim>\<open>None\<close> for a missing key; \<^verbatim>\<open>d.get(k, default)\<close> is the default.\<close>

definition get :: "doc \<Rightarrow> string \<Rightarrow> pyval" where
  "get d k = (case d k of None \<Rightarrow> PNone | Some v \<Rightarrow> v)"

definition get_default :: "doc \<Rightarrow> string \<Rightarrow> pyval \<Rightarrow> pyval" where
  "get_default d k dflt = (case d k of None \<Rightarrow> dflt | Some v \<Rightarrow> v)"

text \<open>Truth value testing: \<^verbatim>\<open>None\<close> and the empty string are false, an object is true.\<close>

fun truthy :: "pyval \<Rightarrow> bool" where
  "truthy PNone = False"
| "truthy (PStr s) = (s \<noteq> [])"
| "truthy (PObjectId h) = True"

text \<open>An \<^verbatim>\<open>Optional[str]\<close> attribute of a request model, as a Python value.\<close>

fun of_opt :: "string option \<Rightarrow> pyval" where
  "of_opt None = PNone"
| "of_opt (Some s) = PStr s"

text \<open>\<^verbatim>\<open>a or b\<close> evaluates to \<^verbatim>\<open>a\<close> when \<^verbatim>\<open>a\<close> is true and to \<^verbatim>\<open>b\<close> otherwise.\<close>

definition py_or :: "pyval \<Rightarrow> pyval \<Rightarrow> pyval" where
  "py_or a b = (if truthy a then a else b)"

text \<open>\<^verbatim>\<open>str(x)\<close> on the values of the model.\<close>

fun str :: "pyval \<Rightarrow> string" where
  "str PNone = ''None''"
| "str (PStr s) = s"
| "str (PObjectId h) = h"

subsection \<open>\<^verbatim>\<open>datetime.strptime(s, '%Y-%m-%d')\<close>\<close>

text \<open>
  A calendar date is the triple (year, month, day); Python compares dates and
  midnight datetimes in that lexicographic order, which is the order of the product
  type here.
\<close>

type_synonym date = "nat \<times> nat \<times> nat"

text \<open>
  A Python \<^verbatim>\<open>str\<close> is a sequence of code points; a \<open>string\<close> here is the list of the
  bytes of its UTF-8 encoding. Equality, emptiness and the lexicographic order by code
  point are those of the encodings. The date parser looks at code points, so it decodes
  first; a byte sequence that encodes no \<^verbatim>\<open>str\<close> has no decoding.
\<close>

definition cont :: "char \<Rightarrow> nat option" where
  \<comment> \<open>the six payload bits of a continuation byte\<close>
  "cont c = (if 128 \<le> (of_char c :: nat) \<and> (of_char c :: nat) < 192
             then Some (of_char c - 128) else None)"

definition scalar :: "nat \<Rightarrow> nat \<Rightarrow> nat \<Rightarrow> nat option" where
  \<comment> \<open>a decoded value in the range of its length, and not a surrogate\<close>
  "scalar lo hi cp =
     (if lo \<le> cp \<and> cp \<le> hi \<and> \<not> (55296 \<le> cp \<and> cp \<le> 57343) then Some cp else None)"

fun utf8_decode :: "string \<Rightarrow> nat list option" where
  "utf8_decode [] = Some []"
| "utf8_decode (c # cs) =
     (if (of_char c :: nat) < 128 then
        map_option ((#) (of_char c)) (utf8_decode cs)
      else if 192 \<le> (of_char c :: nat) \<and> (of_char c :: nat) < 224 then
        (case cs of
           c1 # r \<Rightarrow>
             (case cont c1 of
                Some x1 \<Rightarrow>
                  (case scalar 128 2047 ((of_char c - 192) * 64 + x1) of
                     Some cp \<Rightarrow> map_option ((#) cp) (utf8_decode r)
                   | None \<Rightarrow> None)
              | None \<Rightarrow> None)
         | _ \<Rightarrow> None)
      else if 224 \<le> (of_char c :: nat) \<and> (of_char c :: nat) < 240 then
        (case cs of
           c1 # c2 # r \<Rightarrow>
             (case (cont c1, cont c2) of
                (Some x1, Some x2) \<Rightarrow>
                  (case scalar 2048 65535 ((of_char c - 224) * 4096 + x1 * 64 + x2) of
                     Some cp \<Rightarrow> map_option ((#) cp) (utf8_decode r)
                   | None \<Rightarrow> None)
              | _ \<Rightarrow> None)
         | _ \<Rightarrow> None)
      else if 240 \<le> (of_char c :: nat) \<and> (of_char c :: nat) < 248 then
        (case cs of
           c1 # c2 # c3 # r \<Rightarrow>
             (case (cont c1, cont c2, cont c3) of
                (Some x1, Some x2, Some x3) \<Rightarrow>
                  (case scalar 65536 1114111
                          ((of_char c - 240) * 262144 + x1 * 4096 + x2 * 64 + x3) of
                     Some cp \<Rightarrow> map_option ((#) cp) (utf8_decode r)
                   | None \<Rightarrow> None)
              | _ \<Rightarrow> None)
         | _ \<Rightarrow> None)
      else None)"

text \<open>
  The library turns the format into the regular expression
  \<^verbatim>\<open>(?P<Y>\d\d\d\d)-(?P<m>1[0-2]|0[1-9]|[1-9])-(?P<d>3[0-1]|[1-2]\d|0[1-9]|[1-9]| [1-9])\<close>,
  matches it at the start of the string, and raises \<^verbatim>\<open>ValueError\<close> when it does not
  match or when input remains after the match. A class such as \<^verbatim>\<open>[1-9]\<close> is a range of
  ASCII digits. The class \<^verbatim>\<open>\d\<close> is every decimal digit of the interpreter's Unicode
  database, and \<^verbatim>\<open>int\<close> reads such a digit by its decimal value; the database differs
  between versions of the interpreter, so its lookup is the parameter \<open>decimal\<close> of the
  parser: the decimal value of a code point, if it is a decimal digit.
\<close>

type_synonym digits = "nat \<Rightarrow> nat option"

definition cls :: "nat \<Rightarrow> nat \<Rightarrow> nat \<Rightarrow> nat option" where
  \<comment> \<open>the class \<^verbatim>\<open>[lo-hi]\<close> of ASCII digits: the value of the digit matched\<close>
  "cls lo hi cp = (if 48 + lo \<le> cp \<and> cp \<le> 48 + hi then Some (cp - 48) else None)"

fun seq2 :: "nat option \<Rightarrow> nat option \<Rightarrow> nat option" where
  \<comment> \<open>two digits in sequence, read as a number\<close>
  "seq2 (Some a) (Some b) = Some (10 * a + b)"
| "seq2 a b = None"

text \<open>
  Each function below matches one group, trying the alternatives in the order of the
  expression, and returns the number read and the rest of the input.
\<close>

fun parse_Y :: "digits \<Rightarrow> nat list \<Rightarrow> (nat \<times> nat list) option" where
  "parse_Y decimal (a # b # c # d # rest) =
     (case (decimal a, decimal b, decimal c, decimal d) of
        (Some a', Some b', Some c', Some d') \<Rightarrow>
          Some (1000 * a' + 100 * b' + 10 * c' + d', rest)
      | _ \<Rightarrow> None)"
| "parse_Y decimal cps = None"

fun parse_m :: "nat list \<Rightarrow> (nat \<times> nat list) option" where
  "parse_m [] = None"
| "parse_m [a] = map_option (\<lambda>n. (n, [])) (cls 1 9 a)"
| "parse_m (a # b # rest) =
     (case seq2 (cls 1 1 a) (cls 0 2 b) of Some n \<Rightarrow> Some (n, rest)
      | None \<Rightarrow>
     (case seq2 (cls 0 0 a) (cls 1 9 b) of Some n \<Rightarrow> Some (n, rest)
      | None \<Rightarrow> map_option (\<lambda>n. (n, b # rest)) (cls 1 9 a)))"

fun parse_d :: "digits \<Rightarrow> nat list \<Rightarrow> (nat \<times> nat list) option" where
  "parse_d decimal [] = None"
| "parse_d decimal [a] = map_option (\<lambda>n. (n, [])) (cls 1 9 a)"
| "parse_d decimal (a # b # rest) =
     (case seq2 (cls 3 3 a) (cls 0 1 b) of Some n \<Rightarrow> Some (n, rest)
      | None \<Rightarrow>
     (case seq2 (cls 1 2 a) (decimal b) of Some n \<Rightarrow> Some (n, rest)
      | None \<Rightarrow>
     (case seq2 (cls 0 0 a) (cls 1 9 b) of Some n \<Rightarrow> Some (n, rest)
      | None \<Rightarrow>
     (case cls 1 9 a of Some n \<Rightarrow> Some (n, b # rest)
      | None \<Rightarrow>
        if a = 32 then map_option (\<lambda>n. (n, rest)) (cls 1 9 b) else None))))"

text \<open>The date constructor rejects year 0 and a day the month does not have.\<close>

definition is_leap :: "nat \<Rightarrow> bool" where
  "is_leap y = (y mod 4 = 0 \<and> (y mod 100 \<noteq> 0 \<or> y mod 400 = 0))"

definition days_in_month :: "nat \<Rightarrow> nat \<Rightarrow> nat" where
  "days_in_month y m =
     (if m = 2 then (if is_leap y then 29 else 28)
      else if m = 4 \<or> m = 6 \<or> m = 9 \<or> m = 11 then 30 else 31)"

definition valid_date :: "nat \<Rightarrow> nat \<Rightarrow> nat \<Rightarrow> bool" where
  "valid_date y m d = (1 \<le> y \<and> 1 \<le> m \<and> m \<le> 12 \<and> 1 \<le> d \<and> d \<le> days_in_month y m)"

text \<open>The pattern on code points; 45 is the hyphen and 32 (above) the space.\<close>

definition match_ymd :: "digits \<Rightarrow> nat list \<Rightarrow> date option" where
  "match_ymd decimal cps =
     (case parse_Y decimal cps of
        None \<Rightarrow> None
      | Some (y, r1) \<Rightarrow>
          (case r1 of
             [] \<Rightarrow> None
           | c1 # r2 \<Rightarrow>
               if c1 \<noteq> 45 then None
               else (case parse_m r2 of
                  None \<Rightarrow> None
                | Some (m, r3) \<Rightarrow>
                    (case r3 of
                       [] \<Rightarrow> None
                     | c2 # r4 \<Rightarrow>
                         if c2 \<noteq> 45 then None
                         else (case parse_d decimal r4 of
                            None \<Rightarrow> None
                          | Some (d, r5) \<Rightarrow>
                              if r5 = [] \<and> valid_date y m d then Some (y, m, d) else None)))))"

definition strptime_ymd :: "digits \<Rightarrow> string \<Rightarrow> date option" where
  "strptime_ymd decimal s =
     (case utf8_decode s of None \<Rightarrow> None | Some cps \<Rightarrow> match_ymd decimal cps)"

text \<open>
  \<^verbatim>\<open>strptime\<close> applied to an arbitrary value: a non-string argument raises
  \<^verbatim>\<open>TypeError\<close>, a string that is not a date raises \<^verbatim>\<open>ValueError\<close>.
\<close>

fun strptime :: "digits \<Rightarrow> pyval \<Rightarrow> exn + date" where
  "strptime decimal (PStr s) =
     (case strptime_ymd decimal s of None \<Rightarrow> Inl ValueError | Some d \<Rightarrow> Inr d)"
| "strptime decimal v = Inl TypeError"

text \<open>
  The decimal digits of version 14.0 of the Unicode database (the one of CPython 3.11):
  they come in runs of ten consecutive code points with the values 0 to 9, listed here
  by the code point of their zero.
\<close>

definition unicode_zeros :: "nat list" where
  "unicode_zeros =
     [48, 1632, 1776, 1984, 2406, 2534, 2662, 2790, 2918, 3046, 3174, 3302, 3430, 3558,
      3664, 3792, 3872, 4160, 4240, 6112, 6160, 6470, 6608, 6784, 6800, 6992, 7088, 7232,
      7248, 42528, 43216, 43264, 43472, 43504, 43600, 44016, 65296, 66720, 68912, 69734,
      69872, 69942, 70096, 70384, 70736, 70864, 71248, 71360, 71472, 71904, 72016, 72784,
      73040, 73120, 92768, 92864, 93008, 120782, 120792, 120802, 120812, 120822, 123200,
      123632, 125264, 130032]"

definition unicode_decimal :: digits where
  "unicode_decimal cp =
     (case List.find (\<lambda>z. z \<le> cp \<and> cp < z + 10) unicode_zeros of
        None \<Rightarrow> None
      | Some z \<Rightarrow> Some (cp - z))"

subsection \<open>\<^verbatim>\<open>list.sort(key=lambda x: x.get("created_at", ""), reverse=True)\<close>\<close>

definition created_at_key :: "doc \<Rightarrow> pyval" where
  "created_at_key x = get_default x ''created_at'' (PStr '''')"

fun is_str :: "pyval \<Rightarrow> bool" where
  "is_str (PStr s) = True"
| "is_str v = False"

fun is_oid :: "pyval \<Rightarrow> bool" where
  "is_oid (PObjectId h) = True"
| "is_oid v = False"

text \<open>
  Strings compare lexicographically by character code, identifiers by their bytes (the
  order of their renderings); any other pair of values has no order and the comparison
  raises \<^verbatim>\<open>TypeError\<close>. A sort of fewer than two elements compares nothing. The sort is
  stable, and with \<^verbatim>\<open>reverse=True\<close> it sorts descending while elements with equal keys
  keep decimal their original order: the list is reversed, sorted ascending, and reversed again.
\<close>

definition sort_reverse :: "('a \<Rightarrow> pyval) \<Rightarrow> 'a list \<Rightarrow> exn + 'a list" where
  "sort_reverse k xs =
     (if list_all (\<lambda>x. is_str (k x)) xs then Inr (rev (sort_key (\<lambda>x. str (k x)) (rev xs)))
      else if list_all (\<lambda>x. is_oid (k x)) xs then Inr (rev (sort_key (\<lambda>x. str (k x)) (rev xs)))
      else if length xs \<le> 1 then Inr xs
      else Inl TypeError)"

subsection \<open>The document store\<close>

text \<open>
  The collections come from the module \<^verbatim>\<open>..database\<close>; their contents are the state the
  endpoints run on, a list of documents in the order \<^verbatim>\<open>find()\<close> yields them. The
  operations are those of the store's client: \<^verbatim>\<open>find_one\<close>, \<^verbatim>\<open>update_one\<close> and
  \<^verbatim>\<open>delete_one\<close> act on the first document whose \<^verbatim>\<open>_id\<close> equals the given value;
  \<^verbatim>\<open>insert_one\<close> adds the document under the identifier the store assigns;
  \<^verbatim>\<open>update_one\<close> with \<^verbatim>\<open>$set\<close> reports \<^verbatim>\<open>modified_count\<close> 1 when a field of the matched
  document changed and 0 when no document matched or the new values equal the old ones.
\<close>

definition find_one :: "doc list \<Rightarrow> pyval \<Rightarrow> doc option" where
  "find_one coll idv = List.find (\<lambda>d. d ''_id'' = Some idv) coll"

definition insert_one :: "doc list \<Rightarrow> doc \<Rightarrow> pyval \<Rightarrow> doc list" where
  "insert_one coll d inserted_id = coll @ [d(''_id'' \<mapsto> inserted_id)]"

definition set_fields :: "(string \<times> pyval) list \<Rightarrow> doc \<Rightarrow> doc" where
  "set_fields upd d = foldl (\<lambda>m (k, v). m(k \<mapsto> v)) d upd"

definition modifies :: "(string \<times> pyval) list \<Rightarrow> doc \<Rightarrow> bool" where
  "modifies upd d = list_ex (\<lambda>(k, v). d k \<noteq> Some v) upd"

fun update_one :: "pyval \<Rightarrow> (string \<times> pyval) list \<Rightarrow> doc list \<Rightarrow> nat \<times> doc list" where
  "update_one idv upd [] = (0, [])"
| "update_one idv upd (d # ds) =
     (if d ''_id'' = Some idv
      then ((if modifies upd d then 1 else 0), set_fields upd d # ds)
      else (case update_one idv upd ds of (n, ds') \<Rightarrow> (n, d # ds')))"

fun delete_one :: "pyval \<Rightarrow> doc list \<Rightarrow> nat \<times> doc list" where
  "delete_one idv [] = (0, [])"
| "delete_one idv (d # ds) =
     (if d ''_id'' = Some idv then (1, ds)
      else (case delete_one idv ds of (n, ds') \<Rightarrow> (n, d # ds')))"

section \<open>The endpoints\<close>

text \<open>
  Each endpoint takes what the handler reads from its environment as further arguments:
  the decimal digits of the interpreter (\<open>decimal\<close>, for the handlers that parse dates),
  the clock (\<open>now\<close>), the two collections, and for \<^verbatim>\<open>insert_one\<close> the identifier the store
  assigns. An endpoint that writes returns its outcome together with the announcements
  collection after the call; \<open>Inl\<close> is the exception that leaves the handler.
\<close>

subsection \<open>\<^verbatim>\<open>get_announcements\<close> (lines 29 to 60)\<close>

text \<open>
  The body of the loop: \<open>True\<close> when the announcement is appended, \<open>False\<close> for each
  \<^verbatim>\<open>continue\<close>. Both \<^verbatim>\<open>except (ValueError, TypeError)\<close> clauses catch everything
  \<^verbatim>\<open>strptime\<close> raises.
\<close>

definition keep :: "digits \<Rightarrow> date \<Rightarrow> doc \<Rightarrow> bool" where
  "keep decimal now announcement =
     (case strptime decimal (get announcement ''expiration_date'') of
        Inl e \<Rightarrow> False
      | Inr exp_date \<Rightarrow>
          if exp_date < now then False
          else if truthy (get announcement ''start_date'') then
            (case strptime decimal (get announcement ''start_date'') of
               Inl e \<Rightarrow> False
             | Inr start_date' \<Rightarrow> \<not> (start_date' > now))
          else True)"

definition get_announcements :: "digits \<Rightarrow> date \<Rightarrow> doc list \<Rightarrow> exn + doc list" where
  "get_announcements decimal now coll =
     sort_reverse created_at_key (filter (keep decimal now) coll)"

subsection \<open>\<^verbatim>\<open>get_all_announcements\<close> (lines 62 to 77)\<close>

definition get_all_announcements :: "string \<Rightarrow> doc list \<Rightarrow> doc list \<Rightarrow> exn + doc list" where
  "get_all_announcements teacher_username teachers coll =
     (case find_one teachers (PStr teacher_username) of
        None \<Rightarrow> Inl (HTTPException 401 ''Authentication required'')
      | Some teacher \<Rightarrow> sort_reverse created_at_key coll)"

subsection \<open>\<^verbatim>\<open>create_announcement\<close> (lines 79 to 116)\<close>

text \<open>
  The \<^verbatim>\<open>try\<close> block of lines 92 to 101: a \<^verbatim>\<open>ValueError\<close> becomes the 400 response about
  the format; the \<^verbatim>\<open>HTTPException\<close> about the order is raised inside the block and is
  not caught by it.
\<close>

definition create_validate :: "digits \<Rightarrow> AnnouncementCreate \<Rightarrow> exn + unit" where
  "create_validate decimal announcement =
     (case strptime decimal (PStr (expiration_date announcement)) of
        Inl ValueError \<Rightarrow> Inl (HTTPException 400 ''Invalid date format. Use ISO format (YYYY-MM-DD)'')
      | Inl e \<Rightarrow> Inl e
      | Inr exp_date \<Rightarrow>
          if truthy (of_opt (start_date announcement)) then
            (case strptime decimal (of_opt (start_date announcement)) of
               Inl ValueError \<Rightarrow>
                 Inl (HTTPException 400 ''Invalid date format. Use ISO format (YYYY-MM-DD)'')
             | Inl e \<Rightarrow> Inl e
             | Inr start_date' \<Rightarrow>
                 if start_date' \<ge> exp_date
                 then Inl (HTTPException 400 ''Start date must be before expiration date'')
                 else Inr ())
          else Inr ())"

definition announcement_doc_of :: "AnnouncementCreate \<Rightarrow> string \<Rightarrow> string \<Rightarrow> doc" where
  "announcement_doc_of announcement teacher_username now_iso =
     [''title'' \<mapsto> PStr (title announcement),
      ''message'' \<mapsto> PStr (message announcement),
      ''start_date'' \<mapsto> of_opt (start_date announcement),
      ''expiration_date'' \<mapsto> PStr (expiration_date announcement),
      ''created_by'' \<mapsto> PStr teacher_username,
      ''created_at'' \<mapsto> PStr now_iso]"

definition create_announcement ::
  "digits \<Rightarrow> AnnouncementCreate \<Rightarrow> string \<Rightarrow> string \<Rightarrow> pyval \<Rightarrow> doc list \<Rightarrow> doc list
     \<Rightarrow> (exn + doc) \<times> doc list" where
  "create_announcement decimal announcement teacher_username now_iso inserted_id teachers coll =
     (case find_one teachers (PStr teacher_username) of
        None \<Rightarrow> (Inl (HTTPException 401 ''Authentication required''), coll)
      | Some teacher \<Rightarrow>
          (case create_validate decimal announcement of
             Inl e \<Rightarrow> (Inl e, coll)
           | Inr u \<Rightarrow>
               let announcement_doc = announcement_doc_of announcement teacher_username now_iso
               in (Inr (announcement_doc(''_id'' \<mapsto> PStr (str inserted_id))),
                   insert_one coll announcement_doc inserted_id)))"

subsection \<open>\<^verbatim>\<open>update_announcement\<close> (lines 118 to 172)\<close>

definition update_validate :: "digits \<Rightarrow> AnnouncementUpdate \<Rightarrow> doc \<Rightarrow> exn + unit" where
  "update_validate decimal announcement announcement_doc =
     (if truthy (py_or (of_opt (upd_expiration_date announcement))
                       (of_opt (upd_start_date announcement))) then
        let exp_date_str = py_or (of_opt (upd_expiration_date announcement))
                                 (get announcement_doc ''expiration_date'');
            start_date_str = py_or (of_opt (upd_start_date announcement))
                                   (get announcement_doc ''start_date'')
        in if truthy exp_date_str \<and> truthy start_date_str then
             (case strptime decimal exp_date_str of
                Inl ValueError \<Rightarrow>
                  Inl (HTTPException 400 ''Invalid date format. Use ISO format (YYYY-MM-DD)'')
              | Inl e \<Rightarrow> Inl e
              | Inr exp_date \<Rightarrow>
                  (case strptime decimal start_date_str of
                     Inl ValueError \<Rightarrow>
                       Inl (HTTPException 400 ''Invalid date format. Use ISO format (YYYY-MM-DD)'')
                   | Inl e \<Rightarrow> Inl e
                   | Inr start_date' \<Rightarrow>
                       if start_date' \<ge> exp_date
                       then Inl (HTTPException 400 ''Start date must be before expiration date'')
                       else Inr ()))
           else Inr ()
      else Inr ())"

text \<open>The update document, built field by field from the attributes that are not \<^verbatim>\<open>None\<close>.\<close>

definition field_upd :: "string \<Rightarrow> string option \<Rightarrow> (string \<times> pyval) list" where
  "field_upd k v = (case v of None \<Rightarrow> [] | Some s \<Rightarrow> [(k, PStr s)])"

definition update_doc :: "AnnouncementUpdate \<Rightarrow> (string \<times> pyval) list" where
  "update_doc announcement =
     field_upd ''title'' (upd_title announcement) @
     field_upd ''message'' (upd_message announcement) @
     field_upd ''start_date'' (upd_start_date announcement) @
     field_upd ''expiration_date'' (upd_expiration_date announcement)"

definition update_announcement ::
  "digits \<Rightarrow> string \<Rightarrow> AnnouncementUpdate \<Rightarrow> string \<Rightarrow> doc list \<Rightarrow> doc list
     \<Rightarrow> (exn + doc option) \<times> doc list" where
  "update_announcement decimal announcement_id announcement teacher_username teachers coll =
     (case find_one teachers (PStr teacher_username) of
        None \<Rightarrow> (Inl (HTTPException 401 ''Authentication required''), coll)
      | Some teacher \<Rightarrow>
          (case find_one coll (PStr announcement_id) of
             None \<Rightarrow> (Inl (HTTPException 404 ''Announcement not found''), coll)
           | Some announcement_doc \<Rightarrow>
               (case update_validate decimal announcement announcement_doc of
                  Inl e \<Rightarrow> (Inl e, coll)
                | Inr u \<Rightarrow>
                    if update_doc announcement \<noteq> [] then
                      (case update_one (PStr announcement_id) (update_doc announcement) coll of
                         (modified_count, coll') \<Rightarrow>
                           if modified_count = 0
                           then (Inl (HTTPException 500 ''Failed to update announcement''), coll')
                           else (Inr (find_one coll' (PStr announcement_id)), coll'))
                    else (Inr (find_one coll (PStr announcement_id)), coll))))"

subsection \<open>\<^verbatim>\<open>delete_announcement\<close> (lines 174 to 191)\<close>

definition delete_announcement ::
  "string \<Rightarrow> string \<Rightarrow> doc list \<Rightarrow> doc list \<Rightarrow> (exn + string) \<times> doc list" where
  "delete_announcement announcement_id teacher_username teachers coll =
     (case find_one teachers (PStr teacher_username) of
        None \<Rightarrow> (Inl (HTTPException 401 ''Authentication required''), coll)
      | Some teacher \<Rightarrow>
          (case delete_one (PStr announcement_id) coll of
             (deleted_count, coll') \<Rightarrow>
               if deleted_count = 0
               then (Inl (HTTPException 404 ''Announcement not found''), coll')
               else (Inr ''Announcement deleted successfully'', coll')))"

subsection \<open>The error kinds of the specification\<close>

text \<open>
  The specification names four error kinds by the status of the response: 401
  \<open>Unauthenticated\<close>, 400 \<open>InvalidInput\<close>, 404 \<open>NotFound\<close> and 500 \<open>InternalError\<close>. An
  exception of the runtime that the handler does not catch is none of them.
\<close>

datatype error_kind = Unauthenticated | InvalidInput | NotFound | InternalError

fun kind :: "exn \<Rightarrow> error_kind option" where
  "kind (HTTPException c d) =
     (if c = 401 then Some Unauthenticated
      else if c = 400 then Some InvalidInput
      else if c = 404 then Some NotFound
      else if c = 500 then Some InternalError
      else None)"
| "kind e = None"

subsection \<open>Wording of the specification\<close>

text \<open>
  The effective value of a date field on update, in the words of the specification with
  ``supplied'' read as ``supplied and not empty'': the supplied string when there is one
  and it is not empty, else the stored value of the field.
\<close>

definition resolved :: "string option \<Rightarrow> pyval \<Rightarrow> pyval" where
  "resolved supplied stored =
     (case supplied of
        None \<Rightarrow> stored
      | Some s \<Rightarrow> if s = [] then stored else PStr s)"





subsection \<open>Example data\<close>

definition teacher_t1 :: doc where
  "teacher_t1 = [''_id'' \<mapsto> PStr ''t1'']"

definition ann_exam :: doc where
  "ann_exam =
     [''_id'' \<mapsto> PStr ''a1'',
      ''title'' \<mapsto> PStr ''Exam'',
      ''message'' \<mapsto> PStr ''Midterm'',
      ''start_date'' \<mapsto> PStr ''2025-01-01'',
      ''expiration_date'' \<mapsto> PStr ''2025-03-01'',
      ''created_by'' \<mapsto> PStr ''t1'',
      ''created_at'' \<mapsto> PStr ''2025-01-01T08:00:00+00:00'']"

definition ann_empty_start :: doc where
  "ann_empty_start =
     [''_id'' \<mapsto> PStr ''a2'',
      ''title'' \<mapsto> PStr ''Fair'',
      ''message'' \<mapsto> PStr ''Science fair'',
      ''start_date'' \<mapsto> PStr '''',
      ''expiration_date'' \<mapsto> PStr ''2025-03-01'',
      ''created_by'' \<mapsto> PStr ''t1'',
      ''created_at'' \<mapsto> PStr ''2025-01-02T08:00:00+00:00'']"

definition ann_null_created :: doc where
  "ann_null_created =
     [''_id'' \<mapsto> PStr ''a3'',
      ''title'' \<mapsto> PStr ''Trip'',
      ''message'' \<mapsto> PStr ''Museum'',
      ''expiration_date'' \<mapsto> PStr ''2025-03-01'',
      ''created_at'' \<mapsto> PNone]"

definition ann_no_created :: doc where
  "ann_no_created =
     [''_id'' \<mapsto> PStr ''a4'',
      ''title'' \<mapsto> PStr ''Club'',
      ''message'' \<mapsto> PStr ''Chess'',
      ''expiration_date'' \<mapsto> PStr ''2025-03-01'']"

definition ann_expired :: doc where
  "ann_expired =
     [''_id'' \<mapsto> PStr ''a5'',
      ''title'' \<mapsto> PStr ''Old'',
      ''message'' \<mapsto> PStr ''Past'',
      ''start_date'' \<mapsto> PNone,
      ''expiration_date'' \<mapsto> PStr ''2025-01-10'',
      ''created_by'' \<mapsto> PStr ''t1'',
      ''created_at'' \<mapsto> PStr ''2024-12-01T08:00:00+00:00'']"

text \<open>
  An expiration date written with full-width digits: the year is the four code points
  U+FF19, each three bytes in UTF-8.
\<close>

definition fullwidth_9999_12_31 :: string where
  "fullwidth_9999_12_31 =
     map char_of [239, 188, 153, 239, 188, 153, 239, 188, 153, 239, 188, 153 :: nat] @ ''-12-31''"

definition ann_fullwidth :: doc where
  "ann_fullwidth =
     [''_id'' \<mapsto> PStr ''a6'',
      ''title'' \<mapsto> PStr ''Open'',
      ''message'' \<mapsto> PStr ''Library hours'',
      ''expiration_date'' \<mapsto> PStr fullwidth_9999_12_31,
      ''created_at'' \<mapsto> PStr ''2025-01-03T08:00:00+00:00'']"

definition title_only :: "string \<Rightarrow> AnnouncementUpdate" where
  "title_only t =
     \<lparr>upd_title = Some t, upd_message = None, upd_start_date = None, upd_expiration_date = None\<rparr>"

definition no_fields :: AnnouncementUpdate where
  "no_fields =
     \<lparr>upd_title = None, upd_message = None, upd_start_date = None, upd_expiration_date = None\<rparr>"

definition expiration_only :: "string \<Rightarrow> AnnouncementUpdate" where
  "expiration_only e =
     \<lparr>upd_title = None, upd_message = None, upd_start_date = None, upd_expiration_date = Some e\<rparr>"

definition start_only :: "string \<Rightarrow> AnnouncementUpdate" where
  "start_only s =
     \<lparr>upd_title = None, upd_message = None, upd_start_date = Some s, upd_expiration_date = None\<rparr>"

definition req_exam :: AnnouncementCreate where
  "req_exam =
     \<lparr>title = ''Exam'', message = ''Midterm'', start_date = Some ''2025-01-01'',
      expiration_date = ''2025-01-10''\<rparr>"

definition req_reversed :: AnnouncementCreate where
  "req_reversed =
     \<lparr>title = ''Exam'', message = ''Midterm'', start_date = Some ''2025-01-10'',
      expiration_date = ''2025-01-01''\<rparr>"

definition req_empty_start :: AnnouncementCreate where
  "req_empty_start =
     \<lparr>title = ''Exam'', message = ''Midterm'', start_date = Some '''',
      expiration_date = ''2025-01-10''\<rparr>"

definition req_no_start :: AnnouncementCreate where
  "req_no_start =
     \<lparr>title = ''Fair'', message = ''Science fair'', start_date = None,
      expiration_date = ''2025-01-10''\<rparr>"

section \<open>Properties\<close>

subsection \<open>Evaluation and the store\<close>

lemmas strptime_eval = strptime_ymd_def match_ymd_def cls_def cont_def scalar_def
  valid_date_def days_in_month_def is_leap_def unicode_decimal_def unicode_zeros_def

lemma set_fields_other: "k \<notin> fst ` set upd \<Longrightarrow> set_fields upd d k = d k"
  unfolding set_fields_def by (induction upd arbitrary: d) auto

lemma update_doc_keys:
  "fst ` set (update_doc a) \<subseteq> {''title'', ''message'', ''start_date'', ''expiration_date''}"
  by (auto simp: update_doc_def field_upd_def split: option.splits)

lemma update_doc_keeps_id: "set_fields (update_doc a) d ''_id'' = d ''_id''"
proof -
  have "''_id'' \<notin> fst ` set (update_doc a)"
    using update_doc_keys[of a] by auto
  then show ?thesis by (rule set_fields_other)
qed

text \<open>\<^verbatim>\<open>update_one\<close> rewrites the first matching document in place and nothing else.\<close>

lemma update_one_found:
  assumes "find_one coll idv = Some d"
  shows "\<exists>i<length coll. coll ! i = d \<and>
           update_one idv upd coll =
             ((if modifies upd d then 1 else 0), coll[i := set_fields upd d])"
  using assms
proof (induction coll)
  case Nil
  then show ?case by (simp add: find_one_def)
next
  case (Cons x xs)
  show ?case
  proof (cases "x ''_id'' = Some idv")
    case True
    with Cons.prems have "x = d" by (simp add: find_one_def)
    with True show ?thesis by (intro exI[of _ 0]) simp
  next
    case False
    with Cons.prems have "find_one xs idv = Some d" by (simp add: find_one_def)
    from Cons.IH[OF this] obtain i where "i < length xs" "xs ! i = d"
      "update_one idv upd xs = ((if modifies upd d then 1 else 0), xs[i := set_fields upd d])"
      by blast
    with False show ?thesis by (intro exI[of _ "Suc i"]) simp
  qed
qed

text \<open>After the write, \<^verbatim>\<open>find_one\<close> returns the rewritten document.\<close>

lemma find_one_update_one:
  assumes "find_one coll idv = Some d" "set_fields upd d ''_id'' = d ''_id''"
  shows "find_one (snd (update_one idv upd coll)) idv = Some (set_fields upd d)"
  using assms
proof (induction coll)
  case Nil
  then show ?case by (simp add: find_one_def)
next
  case (Cons x xs)
  show ?case
  proof (cases "x ''_id'' = Some idv")
    case True
    with Cons.prems show ?thesis by (simp add: find_one_def)
  next
    case False
    with Cons.prems have "find_one xs idv = Some d" by (simp add: find_one_def)
    from Cons.IH[OF this Cons.prems(2)] False show ?thesis
      by (simp add: find_one_def case_prod_beta)
  qed
qed

lemma not_modifies_set_fields: "\<not> modifies upd d \<Longrightarrow> set_fields upd d = d"
  unfolding modifies_def set_fields_def
  by (induction upd arbitrary: d) (auto simp: fun_upd_idem)

text \<open>A write reported as zero modifications leaves the collection as it was.\<close>

lemma update_one_zero_unchanged:
  assumes "find_one coll idv = Some d" "fst (update_one idv upd coll) = 0"
  shows "update_one idv upd coll = (0, coll)"
proof -
  from update_one_found[OF assms(1), of upd] obtain i where
    i: "i < length coll" "coll ! i = d"
    "update_one idv upd coll = ((if modifies upd d then 1 else 0), coll[i := set_fields upd d])"
    by blast
  with assms(2) have "\<not> modifies upd d" by (simp split: if_splits)
  then have "set_fields upd d = d" by (rule not_modifies_set_fields)
  with i \<open>\<not> modifies upd d\<close> show ?thesis by (simp add: list_update_same_conv)
qed

lemma find_teacher_t1: "find_one [teacher_t1] (PStr ''t1'') = Some teacher_t1"
  by (simp add: find_one_def teacher_t1_def)

lemma find_ann_exam: "find_one [ann_exam] (PStr ''a1'') = Some ann_exam"
  by (simp add: find_one_def ann_exam_def)

subsection \<open>Authentication\<close>

text \<open>
  C4: for a requester with no matching teacher record, each of create, update, delete
  and list_all fails with the 401 exception (\<open>Unauthenticated\<close>), and the announcements
  collection after the call is the one before it: the lookup of the teacher is the first
  thing every handler does. (The listing has no write call at all.)
\<close>

theorem unknown_teacher_is_rejected:
  assumes "find_one teachers (PStr teacher_username) = None"
  shows "create_announcement decimal announcement teacher_username now_iso inserted_id teachers coll
           = (Inl (HTTPException 401 ''Authentication required''), coll)
       \<and> update_announcement decimal announcement_id upd teacher_username teachers coll
           = (Inl (HTTPException 401 ''Authentication required''), coll)
       \<and> delete_announcement announcement_id teacher_username teachers coll
           = (Inl (HTTPException 401 ''Authentication required''), coll)
       \<and> get_all_announcements teacher_username teachers coll
           = Inl (HTTPException 401 ''Authentication required'')
       \<and> kind (HTTPException 401 ''Authentication required'') = Some Unauthenticated"
  using assms
  by (simp add: create_announcement_def update_announcement_def delete_announcement_def
      get_all_announcements_def)

theorem unknown_teacher_is_rejected_witness:
  "find_one [teacher_t1] (PStr ''mallory'') = None
   \<and> create_announcement unicode_decimal req_exam ''mallory'' ''2025-01-01T08:00:00+00:00'' (PObjectId ''65a1'')
        [teacher_t1] [ann_exam] = (Inl (HTTPException 401 ''Authentication required''), [ann_exam])
   \<and> update_announcement unicode_decimal ''a1'' (title_only ''Quiz'') ''mallory'' [teacher_t1] [ann_exam]
        = (Inl (HTTPException 401 ''Authentication required''), [ann_exam])
   \<and> delete_announcement ''a1'' ''mallory'' [teacher_t1] [ann_exam]
        = (Inl (HTTPException 401 ''Authentication required''), [ann_exam])
   \<and> get_all_announcements ''mallory'' [teacher_t1] [ann_exam]
        = Inl (HTTPException 401 ''Authentication required'')"
proof -
  have h: "find_one [teacher_t1] (PStr ''mallory'') = None"
    by (simp add: find_one_def teacher_t1_def)
  from unknown_teacher_is_rejected[OF h, of unicode_decimal req_exam "''2025-01-01T08:00:00+00:00''"
      "PObjectId ''65a1''" "[ann_exam]" "''a1''" "title_only ''Quiz''"] h
  show ?thesis by simp
qed

subsection \<open>Update: the write and its report\<close>

text \<open>
  C7: an update by a known teacher on an existing record that supplies no field builds
  an empty update document, so \<^verbatim>\<open>update_one\<close> is not called: the collection is
  unchanged, no exception is raised, and the result is the record as stored.
\<close>

theorem update_without_fields_is_noop:
  assumes "find_one teachers (PStr teacher_username) = Some teacher"
    and "find_one coll (PStr announcement_id) = Some d"
  shows "update_doc no_fields = []
       \<and> update_announcement decimal announcement_id no_fields teacher_username teachers coll
           = (Inr (Some d), coll)"
  using assms
  by (simp add: update_announcement_def update_validate_def py_or_def update_doc_def
      field_upd_def no_fields_def)

theorem update_without_fields_is_noop_witness:
  "find_one [teacher_t1] (PStr ''t1'') = Some teacher_t1
   \<and> find_one [ann_expired, ann_exam] (PStr ''a1'') = Some ann_exam
   \<and> update_announcement unicode_decimal ''a1'' no_fields ''t1'' [teacher_t1] [ann_expired, ann_exam]
       = (Inr (Some ann_exam), [ann_expired, ann_exam])"
proof -
  have t: "find_one [teacher_t1] (PStr ''t1'') = Some teacher_t1"
    by (simp add: find_one_def teacher_t1_def)
  have f: "find_one [ann_expired, ann_exam] (PStr ''a1'') = Some ann_exam"
    by (simp add: find_one_def ann_expired_def ann_exam_def)
  from update_without_fields_is_noop[OF t f] t f show ?thesis by simp
qed

text \<open>
  C8: when update reaches the write (known teacher, record found, validation passed,
  at least one field supplied), it fails with the 500 exception (\<open>InternalError\<close>)
  if the store reports zero modified documents, the collection being as before, and
  otherwise it returns the rewritten record, so a write that is reported as a
  modification never yields \<open>InternalError\<close>.
\<close>

theorem zero_modified_is_internal_error:
  assumes "find_one teachers (PStr teacher_username) = Some teacher"
    and "find_one coll (PStr announcement_id) = Some d"
    and "update_validate decimal announcement d = Inr ()"
    and "update_doc announcement \<noteq> []"
  shows "(fst (update_one (PStr announcement_id) (update_doc announcement) coll) = 0 \<longrightarrow>
            update_announcement decimal announcement_id announcement teacher_username teachers coll
              = (Inl (HTTPException 500 ''Failed to update announcement''), coll))
       \<and> (fst (update_one (PStr announcement_id) (update_doc announcement) coll) \<noteq> 0 \<longrightarrow>
            fst (update_announcement decimal announcement_id announcement teacher_username teachers coll)
              = Inr (Some (set_fields (update_doc announcement) d)))
       \<and> kind (HTTPException 500 ''Failed to update announcement'') = Some InternalError"
proof -
  have "find_one (snd (update_one (PStr announcement_id) (update_doc announcement) coll))
          (PStr announcement_id) = Some (set_fields (update_doc announcement) d)"
    using assms(2) update_doc_keeps_id by (rule find_one_update_one)
  moreover have "fst (update_one (PStr announcement_id) (update_doc announcement) coll) = 0
      \<longrightarrow> snd (update_one (PStr announcement_id) (update_doc announcement) coll) = coll"
    using update_one_zero_unchanged[OF assms(2), of "update_doc announcement"] by auto
  ultimately show ?thesis
    using assms by (simp add: update_announcement_def case_prod_beta)
qed

theorem zero_modified_is_internal_error_witness:
  "find_one [teacher_t1] (PStr ''t1'') = Some teacher_t1
   \<and> find_one [ann_exam] (PStr ''a1'') = Some ann_exam
   \<and> update_validate unicode_decimal (title_only ''Exam'') ann_exam = Inr ()
   \<and> update_doc (title_only ''Exam'') \<noteq> []
   \<and> fst (update_one (PStr ''a1'') (update_doc (title_only ''Exam'')) [ann_exam]) = 0
   \<and> update_announcement unicode_decimal ''a1'' (title_only ''Exam'') ''t1'' [teacher_t1] [ann_exam]
       = (Inl (HTTPException 500 ''Failed to update announcement''), [ann_exam])"
proof -
  have t: "find_one [teacher_t1] (PStr ''t1'') = Some teacher_t1"
    by (simp add: find_one_def teacher_t1_def)
  have f: "find_one [ann_exam] (PStr ''a1'') = Some ann_exam"
    by (simp add: find_one_def ann_exam_def)
  have v: "update_validate unicode_decimal (title_only ''Exam'') ann_exam = Inr ()"
    by (simp add: update_validate_def title_only_def py_or_def)
  have u: "update_doc (title_only ''Exam'') \<noteq> []"
    by (simp add: update_doc_def title_only_def field_upd_def)
  have z: "fst (update_one (PStr ''a1'') (update_doc (title_only ''Exam'')) [ann_exam]) = 0"
    by (simp add: update_doc_def title_only_def field_upd_def modifies_def ann_exam_def)
  from zero_modified_is_internal_error[OF t f v u] t f v u z show ?thesis by simp
qed

subsection \<open>Sorting, filtering and evaluation on the examples\<close>







lemma keys_examples:
  "created_at_key ann_exam = PStr ''2025-01-01T08:00:00+00:00''"
  "created_at_key ann_empty_start = PStr ''2025-01-02T08:00:00+00:00''"
  "created_at_key ann_expired = PStr ''2024-12-01T08:00:00+00:00''"
  "created_at_key ann_no_created = PStr ''''"
  "created_at_key ann_null_created = PNone"
  by (simp_all add: created_at_key_def get_default_def ann_exam_def ann_empty_start_def
      ann_expired_def ann_no_created_def ann_null_created_def)

lemma strptime_examples:
  "strptime_ymd unicode_decimal ''2025-03-01'' = Some (2025, 3, 1)"
  "strptime_ymd unicode_decimal ''2025-01-01'' = Some (2025, 1, 1)"
  "strptime_ymd unicode_decimal ''2025-01-10'' = Some (2025, 1, 10)"
  "strptime_ymd unicode_decimal ''2025-02-01'' = Some (2025, 2, 1)"
  "strptime_ymd unicode_decimal '''' = None"
  by (simp_all add: strptime_eval)

text \<open>Digits of other scripts are read where the pattern has \<^verbatim>\<open>\d\<close>, and only there.\<close>

lemma strptime_unicode_examples:
  "strptime_ymd unicode_decimal fullwidth_9999_12_31 = Some (9999, 12, 31)"
  "strptime_ymd unicode_decimal (''2025-01-1'' @ map char_of [217, 165 :: nat]) = Some (2025, 1, 15)"
  "strptime_ymd unicode_decimal (''2025-01-'' @ map char_of [239, 188, 146 :: nat] @ ''5'') = None"
  by (simp_all add: strptime_eval fullwidth_9999_12_31_def)

lemma list_active_fullwidth_example:
  "get_announcements unicode_decimal (2025, 2, 14) [ann_fullwidth] = Inr [ann_fullwidth]"
proof -
  have "keep unicode_decimal (2025, 2, 14) ann_fullwidth"
    by (simp add: keep_def get_def strptime_unicode_examples ann_fullwidth_def)
  moreover have "created_at_key ann_fullwidth = PStr ''2025-01-03T08:00:00+00:00''"
    by (simp add: created_at_key_def get_default_def ann_fullwidth_def)
  ultimately show ?thesis
    by (simp add: get_announcements_def sort_reverse_def)
qed

lemma keep_examples:
  "keep unicode_decimal (2025, 2, 14) ann_exam"
  "keep unicode_decimal (2025, 2, 14) ann_empty_start"
  "keep unicode_decimal (2025, 2, 14) ann_no_created"
  "keep unicode_decimal (2025, 2, 14) ann_null_created"
  "\<not> keep unicode_decimal (2025, 2, 14) ann_expired"
  by (simp_all add: keep_def get_def strptime_examples ann_exam_def ann_empty_start_def
      ann_expired_def ann_no_created_def ann_null_created_def)

subsection \<open>The order of the listings\<close>










subsection \<open>The active listing\<close>




lemma strptime_ymd_Nil: "strptime_ymd decimal [] = None"
  by (simp add: strptime_ymd_def match_ymd_def)

lemma update_single_field:
  assumes "find_one teachers (PStr teacher_username) = Some teacher"
    and "find_one coll (PStr announcement_id) = Some d"
    and "update_validate decimal a d = Inr ()"
    and "update_doc a = [(k, PStr v)]"
    and "d k \<noteq> Some (PStr v)"
  shows "\<exists>i<length coll. coll ! i = d \<and>
           update_announcement decimal announcement_id a teacher_username teachers coll
             = (Inr (Some (d(k \<mapsto> PStr v))), coll[i := d(k \<mapsto> PStr v)])"
proof -
  have sf: "set_fields (update_doc a) d = d(k \<mapsto> PStr v)"
    by (simp add: assms(4) set_fields_def)
  have md: "modifies (update_doc a) d"
    by (simp add: assms(4,5) modifies_def)
  from update_one_found[OF assms(2), of "update_doc a"] md sf obtain i where
    i: "i < length coll" "coll ! i = d"
    "update_one (PStr announcement_id) (update_doc a) coll = (1, coll[i := d(k \<mapsto> PStr v)])"
    by auto
  have "find_one (snd (update_one (PStr announcement_id) (update_doc a) coll))
          (PStr announcement_id) = Some (set_fields (update_doc a) d)"
    using assms(2) update_doc_keeps_id by (rule find_one_update_one)
  with i(3) sf have "find_one (coll[i := d(k \<mapsto> PStr v)]) (PStr announcement_id)
      = Some (d(k \<mapsto> PStr v))"
    by simp
  with assms(1-4) i show ?thesis
    by (intro exI[of _ i]) (simp add: update_announcement_def)
qed

subsection \<open>Update of single fields\<close>

text \<open>
  C6 (as amended): for an existing record, an update by a known teacher that
  supplies only a title different from the stored one succeeds: the date gate is false,
  so no date is parsed or compared, whatever the stored dates are; the record becomes
  the stored record with the new title, every other field as before, and every other
  record of the collection is untouched.
\<close>

theorem update_title_only_changes_title:
  assumes "find_one teachers (PStr teacher_username) = Some teacher"
    and "find_one coll (PStr announcement_id) = Some d"
    and "d ''title'' \<noteq> Some (PStr t)"
  shows "\<not> truthy (py_or (of_opt (upd_expiration_date (title_only t)))
                        (of_opt (upd_start_date (title_only t))))
       \<and> update_validate decimal (title_only t) d = Inr ()
       \<and> (\<exists>i<length coll. coll ! i = d \<and>
            update_announcement decimal announcement_id (title_only t) teacher_username teachers coll
              = (Inr (Some (d(''title'' \<mapsto> PStr t))), coll[i := d(''title'' \<mapsto> PStr t)]))"
proof -
  have v: "update_validate decimal (title_only t) d = Inr ()"
    by (simp add: update_validate_def title_only_def py_or_def)
  have u: "update_doc (title_only t) = [(''title'', PStr t)]"
    by (simp add: update_doc_def title_only_def field_upd_def)
  from update_single_field[OF assms(1,2) v u assms(3)] v show ?thesis
    by (simp add: title_only_def py_or_def)
qed

theorem update_title_only_changes_title_witness:
  "find_one [teacher_t1] (PStr ''t1'') = Some teacher_t1
   \<and> find_one [ann_exam] (PStr ''a1'') = Some ann_exam
   \<and> ann_exam ''title'' \<noteq> Some (PStr ''Quiz'')
   \<and> update_announcement unicode_decimal ''a1'' (title_only ''Quiz'') ''t1'' [teacher_t1] [ann_exam]
       = (Inr (Some (ann_exam(''title'' \<mapsto> PStr ''Quiz''))), [ann_exam(''title'' \<mapsto> PStr ''Quiz'')])"
proof -
  have n: "ann_exam ''title'' \<noteq> Some (PStr ''Quiz'')"
    by (simp add: ann_exam_def)
  from update_title_only_changes_title[OF find_teacher_t1 find_ann_exam n]
  have "update_announcement unicode_decimal ''a1'' (title_only ''Quiz'') ''t1'' [teacher_t1] [ann_exam]
       = (Inr (Some (ann_exam(''title'' \<mapsto> PStr ''Quiz''))), [ann_exam(''title'' \<mapsto> PStr ''Quiz'')])"
    by auto
  with find_teacher_t1 find_ann_exam n show ?thesis by blast
qed

text \<open>
  The claim as stated fails when the supplied title equals the stored one: the store
  reports zero modified documents and the update fails with the 500 exception.
\<close>

theorem update_title_only_counterexample:
  "find_one [teacher_t1] (PStr ''t1'') = Some teacher_t1
   \<and> find_one [ann_exam] (PStr ''a1'') = Some ann_exam
   \<and> ann_exam ''title'' = Some (PStr ''Exam'')
   \<and> fst (update_announcement unicode_decimal ''a1'' (title_only ''Exam'') ''t1'' [teacher_t1] [ann_exam])
       = Inl (HTTPException 500 ''Failed to update announcement'')"
proof -
  have "ann_exam ''title'' = Some (PStr ''Exam'')"
    by (simp add: ann_exam_def)
  moreover have "fst (update_announcement unicode_decimal ''a1'' (title_only ''Exam'') ''t1'' [teacher_t1] [ann_exam])
       = Inl (HTTPException 500 ''Failed to update announcement'')"
    by (simp add: update_announcement_def find_one_def teacher_t1_def update_validate_def
        py_or_def title_only_def update_doc_def field_upd_def modifies_def ann_exam_def)
  ultimately show ?thesis using find_teacher_t1 find_ann_exam by blast
qed

text \<open>
  C9: validation runs only when a supplied date is true as a Python value (not empty),
  while every supplied attribute that is not \<^verbatim>\<open>None\<close> enters the update document. So an
  update that supplies the empty string as \<^verbatim>\<open>expiration_date\<close> passes without any
  format or order check and writes the empty string; the stored record then has an
  expiration date that does not parse, and the active listing drops it on every day.
\<close>

theorem update_empty_expiration_is_written:
  assumes "find_one teachers (PStr teacher_username) = Some teacher"
    and "find_one coll (PStr announcement_id) = Some d"
    and "d ''expiration_date'' \<noteq> Some (PStr '''')"
  shows "(\<not> truthy (of_opt (upd_expiration_date a)) \<and> \<not> truthy (of_opt (upd_start_date a))
            \<longrightarrow> update_validate decimal a d = Inr ())
       \<and> (\<forall>s. upd_expiration_date a = Some s
            \<longrightarrow> (''expiration_date'', PStr s) \<in> set (update_doc a))
       \<and> (\<forall>s. upd_start_date a = Some s \<longrightarrow> (''start_date'', PStr s) \<in> set (update_doc a))
       \<and> (\<exists>i<length coll. coll ! i = d \<and>
            update_announcement decimal announcement_id (expiration_only '''') teacher_username teachers coll
              = (Inr (Some (d(''expiration_date'' \<mapsto> PStr ''''))),
                 coll[i := d(''expiration_date'' \<mapsto> PStr '''')]))
       \<and> strptime decimal (PStr '''') = Inl ValueError
       \<and> (\<forall>today. \<not> keep decimal today (d(''expiration_date'' \<mapsto> PStr '''')))"
proof -
  have g: "\<not> truthy (of_opt (upd_expiration_date a)) \<and> \<not> truthy (of_opt (upd_start_date a))
            \<longrightarrow> update_validate decimal a d = Inr ()"
    by (simp add: update_validate_def py_or_def)
  have w: "\<forall>s. upd_expiration_date a = Some s
            \<longrightarrow> (''expiration_date'', PStr s) \<in> set (update_doc a)"
    "\<forall>s. upd_start_date a = Some s \<longrightarrow> (''start_date'', PStr s) \<in> set (update_doc a)"
    by (simp_all add: update_doc_def field_upd_def)
  have v: "update_validate decimal (expiration_only '''') d = Inr ()"
    by (simp add: update_validate_def expiration_only_def py_or_def)
  have u: "update_doc (expiration_only '''') = [(''expiration_date'', PStr '''')]"
    by (simp add: update_doc_def expiration_only_def field_upd_def)
  have p: "strptime decimal (PStr '''') = Inl ValueError"
    by (simp add: strptime_ymd_Nil)
  have k: "\<forall>today. \<not> keep decimal today (d(''expiration_date'' \<mapsto> PStr ''''))"
    by (simp add: keep_def get_def strptime_ymd_Nil)
  from update_single_field[OF assms(1,2) v u assms(3)] g w p k show ?thesis
    by blast
qed

theorem update_empty_expiration_is_written_witness:
  "find_one [teacher_t1] (PStr ''t1'') = Some teacher_t1
   \<and> find_one [ann_exam] (PStr ''a1'') = Some ann_exam
   \<and> ann_exam ''expiration_date'' \<noteq> Some (PStr '''')
   \<and> update_announcement unicode_decimal ''a1'' (expiration_only '''') ''t1'' [teacher_t1] [ann_exam]
       = (Inr (Some (ann_exam(''expiration_date'' \<mapsto> PStr ''''))),
          [ann_exam(''expiration_date'' \<mapsto> PStr '''')])
   \<and> get_announcements unicode_decimal (2025, 2, 14) [ann_exam] = Inr [ann_exam]
   \<and> get_announcements unicode_decimal (2025, 2, 14) [ann_exam(''expiration_date'' \<mapsto> PStr '''')] = Inr []"
proof -
  have n: "ann_exam ''expiration_date'' \<noteq> Some (PStr '''')"
    by (simp add: ann_exam_def)
  note th = update_empty_expiration_is_written[OF find_teacher_t1 find_ann_exam n, of no_fields]
  from th have "update_announcement unicode_decimal ''a1'' (expiration_only '''') ''t1'' [teacher_t1] [ann_exam]
       = (Inr (Some (ann_exam(''expiration_date'' \<mapsto> PStr ''''))),
          [ann_exam(''expiration_date'' \<mapsto> PStr '''')])"
    by auto
  moreover from th have "\<not> keep unicode_decimal (2025, 2, 14) (ann_exam(''expiration_date'' \<mapsto> PStr ''''))"
    by blast
  then have "get_announcements unicode_decimal (2025, 2, 14) [ann_exam(''expiration_date'' \<mapsto> PStr '''')] = Inr []"
    by (simp add: get_announcements_def sort_reverse_def)
  moreover have "get_announcements unicode_decimal (2025, 2, 14) [ann_exam] = Inr [ann_exam]"
    by (simp add: get_announcements_def keep_examples sort_reverse_def keys_examples)
  ultimately show ?thesis using find_teacher_t1 find_ann_exam n by blast
qed

lemma resolved_py_or: "resolved x stored = py_or (of_opt x) stored"
  by (cases x) (simp_all add: resolved_def py_or_def)

lemma update_validate_pair:
  assumes "truthy (of_opt (upd_expiration_date a)) \<or> truthy (of_opt (upd_start_date a))"
    and "resolved (upd_expiration_date a) (get d ''expiration_date'') = PStr e" and "e \<noteq> []"
    and "resolved (upd_start_date a) (get d ''start_date'') = PStr s" and "s \<noteq> []"
  shows "update_validate decimal a d =
     (case strptime_ymd decimal e of
        None \<Rightarrow> Inl (HTTPException 400 ''Invalid date format. Use ISO format (YYYY-MM-DD)'')
      | Some x \<Rightarrow>
         (case strptime_ymd decimal s of
            None \<Rightarrow> Inl (HTTPException 400 ''Invalid date format. Use ISO format (YYYY-MM-DD)'')
          | Some y \<Rightarrow> if x \<le> y
              then Inl (HTTPException 400 ''Start date must be before expiration date'')
              else Inr ()))"
proof -
  have g: "truthy (py_or (of_opt (upd_expiration_date a)) (of_opt (upd_start_date a)))"
    using assms(1) by (auto simp: py_or_def)
  have e: "py_or (of_opt (upd_expiration_date a)) (get d ''expiration_date'') = PStr e"
    using assms(2) by (simp add: resolved_py_or)
  have s: "py_or (of_opt (upd_start_date a)) (get d ''start_date'') = PStr s"
    using assms(4) by (simp add: resolved_py_or)
  show ?thesis
    unfolding update_validate_def Let_def e s using g assms(3,5)
    by (simp split: option.splits)
qed

subsection \<open>Validation on update\<close>

text \<open>
  C2 (as amended): on an update by a known teacher of an existing record, if a
  non-empty \<^verbatim>\<open>expiration_date\<close> or a non-empty \<^verbatim>\<open>start_date\<close> is supplied, each date is
  resolved to the supplied string when that is not empty and to the stored value
  otherwise; when both resolved values are non-empty strings they must both parse and
  the start must be strictly before the expiration. If one does not parse, or the start
  is not before the expiration, the update fails with a 400 exception (\<open>InvalidInput\<close>)
  and the collection is unchanged; otherwise validation raises nothing and the update
  does not end in a 400 exception.
\<close>

theorem update_validates_effective_pair:
  assumes "find_one teachers (PStr teacher_username) = Some teacher"
    and "find_one coll (PStr announcement_id) = Some d"
    and "truthy (of_opt (upd_expiration_date a)) \<or> truthy (of_opt (upd_start_date a))"
    and "resolved (upd_expiration_date a) (get d ''expiration_date'') = PStr e" and "e \<noteq> []"
    and "resolved (upd_start_date a) (get d ''start_date'') = PStr s" and "s \<noteq> []"
  shows "(strptime_ymd decimal e = None \<or> strptime_ymd decimal s = None \<longrightarrow>
            update_announcement decimal announcement_id a teacher_username teachers coll
              = (Inl (HTTPException 400 ''Invalid date format. Use ISO format (YYYY-MM-DD)''), coll))
       \<and> (\<forall>x y. strptime_ymd decimal e = Some x \<and> strptime_ymd decimal s = Some y \<and> x \<le> y \<longrightarrow>
            update_announcement decimal announcement_id a teacher_username teachers coll
              = (Inl (HTTPException 400 ''Start date must be before expiration date''), coll))
       \<and> (\<forall>x y. strptime_ymd decimal e = Some x \<and> strptime_ymd decimal s = Some y \<and> y < x \<longrightarrow>
            update_validate decimal a d = Inr ()
            \<and> (\<forall>msg. fst (update_announcement decimal announcement_id a teacher_username teachers coll)
                        \<noteq> Inl (HTTPException 400 msg)))
       \<and> kind (HTTPException 400 ''Invalid date format. Use ISO format (YYYY-MM-DD)'')
            = Some InvalidInput
       \<and> kind (HTTPException 400 ''Start date must be before expiration date'')
            = Some InvalidInput"
proof -
  note v = update_validate_pair[OF assms(3-7)]
  have 1: "strptime_ymd decimal e = None \<or> strptime_ymd decimal s = None \<longrightarrow>
            update_announcement decimal announcement_id a teacher_username teachers coll
              = (Inl (HTTPException 400 ''Invalid date format. Use ISO format (YYYY-MM-DD)''), coll)"
    using assms(1,2) v by (auto simp: update_announcement_def split: option.splits)
  have 2: "\<forall>x y. strptime_ymd decimal e = Some x \<and> strptime_ymd decimal s = Some y \<and> x \<le> y \<longrightarrow>
            update_announcement decimal announcement_id a teacher_username teachers coll
              = (Inl (HTTPException 400 ''Start date must be before expiration date''), coll)"
    using assms(1,2) v by (auto simp: update_announcement_def)
  have 3: "\<forall>x y. strptime_ymd decimal e = Some x \<and> strptime_ymd decimal s = Some y \<and> y < x \<longrightarrow>
            update_validate decimal a d = Inr ()
            \<and> (\<forall>msg. fst (update_announcement decimal announcement_id a teacher_username teachers coll)
                        \<noteq> Inl (HTTPException 400 msg))"
    using assms(1,2) v by (auto simp: update_announcement_def case_prod_beta)
  from 1 2 3 show ?thesis by simp
qed

lemma strptime_april: "strptime_ymd unicode_decimal ''2025-04-01'' = Some (2025, 4, 1)"
  by (simp add: strptime_eval)

theorem update_validates_effective_pair_witness:
  "find_one [teacher_t1] (PStr ''t1'') = Some teacher_t1
   \<and> find_one [ann_exam] (PStr ''a1'') = Some ann_exam
   \<and> resolved (upd_expiration_date (start_only ''2025-04-01'')) (get ann_exam ''expiration_date'')
       = PStr ''2025-03-01''
   \<and> resolved (upd_start_date (start_only ''2025-04-01'')) (get ann_exam ''start_date'')
       = PStr ''2025-04-01''
   \<and> update_announcement unicode_decimal ''a1'' (start_only ''2025-04-01'') ''t1'' [teacher_t1] [ann_exam]
       = (Inl (HTTPException 400 ''Start date must be before expiration date''), [ann_exam])"
proof -
  have g: "truthy (of_opt (upd_expiration_date (start_only ''2025-04-01'')))
           \<or> truthy (of_opt (upd_start_date (start_only ''2025-04-01'')))"
    by (simp add: start_only_def)
  have e: "resolved (upd_expiration_date (start_only ''2025-04-01'')) (get ann_exam ''expiration_date'')
       = PStr ''2025-03-01''"
    by (simp add: resolved_def start_only_def get_def ann_exam_def)
  have s: "resolved (upd_start_date (start_only ''2025-04-01'')) (get ann_exam ''start_date'')
       = PStr ''2025-04-01''"
    by (simp add: resolved_def start_only_def)
  have ne: "''2025-03-01'' \<noteq> []" "''2025-04-01'' \<noteq> []" by simp_all
  have le: "strptime_ymd unicode_decimal ''2025-03-01'' = Some (2025, 3, 1) \<and>
            strptime_ymd unicode_decimal ''2025-04-01'' = Some (2025, 4, 1) \<and> ((2025, 3, 1) :: date) \<le> (2025, 4, 1)"
    by (simp add: strptime_examples strptime_april)
  from update_validates_effective_pair[OF find_teacher_t1 find_ann_exam g e ne(1) s ne(2)] le
  have "update_announcement unicode_decimal ''a1'' (start_only ''2025-04-01'') ''t1'' [teacher_t1] [ann_exam]
       = (Inl (HTTPException 400 ''Start date must be before expiration date''), [ann_exam])"
    by blast
  with find_teacher_t1 find_ann_exam e s show ?thesis by blast
qed

text \<open>
  The claim as stated fails for a supplied \<^verbatim>\<open>start_date\<close> that is the empty string: the
  field is supplied, the pair of the supplied start and the stored expiration are both
  present, and the empty string does not parse; the update succeeds and writes it.
\<close>

theorem update_validation_counterexample:
  "upd_start_date (start_only '''') = Some ''''
   \<and> strptime unicode_decimal (PStr '''') = Inl ValueError
   \<and> get ann_exam ''expiration_date'' = PStr ''2025-03-01''
   \<and> update_announcement unicode_decimal ''a1'' (start_only '''') ''t1'' [teacher_t1] [ann_exam]
       = (Inr (Some (ann_exam(''start_date'' \<mapsto> PStr ''''))),
          [ann_exam(''start_date'' \<mapsto> PStr '''')])"
proof -
  have v: "update_validate unicode_decimal (start_only '''') ann_exam = Inr ()"
    by (simp add: update_validate_def start_only_def py_or_def)
  have u: "update_doc (start_only '''') = [(''start_date'', PStr '''')]"
    by (simp add: update_doc_def start_only_def field_upd_def)
  have n: "ann_exam ''start_date'' \<noteq> Some (PStr '''')"
    by (simp add: ann_exam_def)
  from update_single_field[OF find_teacher_t1 find_ann_exam v u n]
  have "update_announcement unicode_decimal ''a1'' (start_only '''') ''t1'' [teacher_t1] [ann_exam]
       = (Inr (Some (ann_exam(''start_date'' \<mapsto> PStr ''''))),
          [ann_exam(''start_date'' \<mapsto> PStr '''')])"
    by auto
  moreover have "upd_start_date (start_only '''') = Some ''''"
    by (simp add: start_only_def)
  moreover have "strptime unicode_decimal (PStr '''') = Inl ValueError"
    by (simp add: strptime_ymd_Nil)
  moreover have "get ann_exam ''expiration_date'' = PStr ''2025-03-01''"
    by (simp add: get_def ann_exam_def)
  ultimately show ?thesis by blast
qed

subsection \<open>Create\<close>

text \<open>
  C3 (as amended): for a known teacher, create fails with a 400 exception
  (\<open>InvalidInput\<close>) and leaves the collection as it was when the \<^verbatim>\<open>expiration_date\<close> does
  not parse, when a non-empty \<^verbatim>\<open>start_date\<close> does not parse, and when both parse and the
  start is on or after the expiration.
\<close>

theorem create_rejects_invalid_dates:
  assumes "find_one teachers (PStr teacher_username) = Some teacher"
  shows "(strptime_ymd decimal (expiration_date a) = None \<longrightarrow>
            create_announcement decimal a teacher_username now_iso inserted_id teachers coll
              = (Inl (HTTPException 400 ''Invalid date format. Use ISO format (YYYY-MM-DD)''), coll))
       \<and> (\<forall>s. start_date a = Some s \<and> s \<noteq> [] \<and> strptime_ymd decimal s = None \<longrightarrow>
            create_announcement decimal a teacher_username now_iso inserted_id teachers coll
              = (Inl (HTTPException 400 ''Invalid date format. Use ISO format (YYYY-MM-DD)''), coll))
       \<and> (\<forall>s x y. start_date a = Some s \<and> strptime_ymd decimal s = Some y
                \<and> strptime_ymd decimal (expiration_date a) = Some x \<and> x \<le> y \<longrightarrow>
            create_announcement decimal a teacher_username now_iso inserted_id teachers coll
              = (Inl (HTTPException 400 ''Start date must be before expiration date''), coll))
       \<and> kind (HTTPException 400 ''Invalid date format. Use ISO format (YYYY-MM-DD)'')
            = Some InvalidInput
       \<and> kind (HTTPException 400 ''Start date must be before expiration date'')
            = Some InvalidInput"
proof -
  have 1: "strptime_ymd decimal (expiration_date a) = None \<longrightarrow>
            create_announcement decimal a teacher_username now_iso inserted_id teachers coll
              = (Inl (HTTPException 400 ''Invalid date format. Use ISO format (YYYY-MM-DD)''), coll)"
    using assms by (simp add: create_announcement_def create_validate_def)
  have 2: "\<forall>s. start_date a = Some s \<and> s \<noteq> [] \<and> strptime_ymd decimal s = None \<longrightarrow>
            create_announcement decimal a teacher_username now_iso inserted_id teachers coll
              = (Inl (HTTPException 400 ''Invalid date format. Use ISO format (YYYY-MM-DD)''), coll)"
    using assms by (auto simp: create_announcement_def create_validate_def split: option.splits)
  have 3: "\<forall>s x y. start_date a = Some s \<and> strptime_ymd decimal s = Some y
                \<and> strptime_ymd decimal (expiration_date a) = Some x \<and> x \<le> y \<longrightarrow>
            create_announcement decimal a teacher_username now_iso inserted_id teachers coll
              = (Inl (HTTPException 400 ''Start date must be before expiration date''), coll)"
  proof (intro allI impI)
    fix s x y
    assume h: "start_date a = Some s \<and> strptime_ymd decimal s = Some y
                \<and> strptime_ymd decimal (expiration_date a) = Some x \<and> x \<le> y"
    then have "s \<noteq> []" using strptime_ymd_Nil by auto
    with h assms show "create_announcement decimal a teacher_username now_iso inserted_id teachers coll
              = (Inl (HTTPException 400 ''Start date must be before expiration date''), coll)"
      by (simp add: create_announcement_def create_validate_def)
  qed
  from 1 2 3 show ?thesis by simp
qed

theorem create_rejects_invalid_dates_witness:
  "find_one [teacher_t1] (PStr ''t1'') = Some teacher_t1
   \<and> start_date req_reversed = Some ''2025-01-10''
   \<and> strptime_ymd unicode_decimal ''2025-01-10'' = Some (2025, 1, 10)
   \<and> strptime_ymd unicode_decimal (expiration_date req_reversed) = Some (2025, 1, 1)
   \<and> create_announcement unicode_decimal req_reversed ''t1'' ''2025-01-01T08:00:00+00:00'' (PObjectId ''65a1'')
        [teacher_t1] [ann_exam]
       = (Inl (HTTPException 400 ''Start date must be before expiration date''), [ann_exam])"
proof -
  have h: "start_date req_reversed = Some ''2025-01-10''
     \<and> strptime_ymd unicode_decimal ''2025-01-10'' = Some (2025, 1, 10)
     \<and> strptime_ymd unicode_decimal (expiration_date req_reversed) = Some (2025, 1, 1)
     \<and> ((2025, 1, 1) :: date) \<le> (2025, 1, 10)"
    by (simp add: req_reversed_def strptime_examples)
  from create_rejects_invalid_dates[OF find_teacher_t1, of unicode_decimal req_reversed
      "''2025-01-01T08:00:00+00:00''" "PObjectId ''65a1''" "[ann_exam]"] h
  have "create_announcement unicode_decimal req_reversed ''t1'' ''2025-01-01T08:00:00+00:00'' (PObjectId ''65a1'')
        [teacher_t1] [ann_exam]
       = (Inl (HTTPException 400 ''Start date must be before expiration date''), [ann_exam])"
    by blast
  with find_teacher_t1 h show ?thesis by blast
qed

text \<open>
  The claim as stated fails for a supplied \<^verbatim>\<open>start_date\<close> that is the empty string: it
  does not parse, yet the guard of line 94 skips it, and the record is inserted with
  that start date.
\<close>

theorem create_empty_start_counterexample:
  "start_date req_empty_start = Some ''''
   \<and> strptime unicode_decimal (PStr '''') = Inl ValueError
   \<and> create_announcement unicode_decimal req_empty_start ''t1'' ''2025-01-01T08:00:00+00:00'' (PObjectId ''65a1'')
        [teacher_t1] []
       = (Inr ((announcement_doc_of req_empty_start ''t1'' ''2025-01-01T08:00:00+00:00'')
                 (''_id'' \<mapsto> PStr ''65a1'')),
          [(announcement_doc_of req_empty_start ''t1'' ''2025-01-01T08:00:00+00:00'')
             (''_id'' \<mapsto> PObjectId ''65a1'')])
   \<and> announcement_doc_of req_empty_start ''t1'' ''2025-01-01T08:00:00+00:00'' ''start_date''
       = Some (PStr '''')"
proof -
  have v: "create_validate unicode_decimal req_empty_start = Inr ()"
    by (simp add: create_validate_def req_empty_start_def strptime_examples)
  have "create_announcement unicode_decimal req_empty_start ''t1'' ''2025-01-01T08:00:00+00:00'' (PObjectId ''65a1'')
        [teacher_t1] []
       = (Inr ((announcement_doc_of req_empty_start ''t1'' ''2025-01-01T08:00:00+00:00'')
                 (''_id'' \<mapsto> PStr ''65a1'')),
          [(announcement_doc_of req_empty_start ''t1'' ''2025-01-01T08:00:00+00:00'')
             (''_id'' \<mapsto> PObjectId ''65a1'')])"
    by (simp add: create_announcement_def find_teacher_t1 v insert_one_def Let_def)
  moreover have "start_date req_empty_start = Some ''''"
    by (simp add: req_empty_start_def)
  moreover have "strptime unicode_decimal (PStr '''') = Inl ValueError"
    by (simp add: strptime_ymd_Nil)
  moreover have "announcement_doc_of req_empty_start ''t1'' ''2025-01-01T08:00:00+00:00''
       ''start_date'' = Some (PStr '''')"
    by (simp add: announcement_doc_of_def req_empty_start_def)
  ultimately show ?thesis by blast
qed

lemma dom_announcement_doc_of:
  "dom (announcement_doc_of a u n) =
     {''title'', ''message'', ''start_date'', ''expiration_date'', ''created_by'', ''created_at''}"
  by (auto simp: announcement_doc_of_def)

text \<open>
  C10: create succeeds for a known teacher whose dates pass validation, and every
  record a successful create returns has exactly the keys \<^verbatim>\<open>title\<close>, \<^verbatim>\<open>message\<close>,
  \<^verbatim>\<open>start_date\<close>, \<^verbatim>\<open>expiration_date\<close>, \<^verbatim>\<open>created_by\<close>, \<^verbatim>\<open>created_at\<close> and \<^verbatim>\<open>_id\<close>: the
  request's values, the requester as \<^verbatim>\<open>created_by\<close>, the clock's timestamp as
  \<^verbatim>\<open>created_at\<close>, the string of the identifier the store assigned as \<^verbatim>\<open>_id\<close>, and
  \<^verbatim>\<open>start_date\<close> present with the value null when the request omitted it. The stored
  record is the same with the assigned identifier itself as \<^verbatim>\<open>_id\<close>.
\<close>

theorem created_record_fields:
  "(find_one teachers (PStr teacher_username) = Some teacher \<and> create_validate decimal a = Inr ()
      \<longrightarrow> (\<exists>doc coll'. create_announcement decimal a teacher_username now_iso inserted_id teachers coll
                          = (Inr doc, coll')))
   \<and> (\<forall>doc coll'. create_announcement decimal a teacher_username now_iso inserted_id teachers coll
                     = (Inr doc, coll') \<longrightarrow>
        dom doc = {''title'', ''message'', ''start_date'', ''expiration_date'', ''created_by'',
                   ''created_at'', ''_id''}
        \<and> doc ''title'' = Some (PStr (title a))
        \<and> doc ''message'' = Some (PStr (message a))
        \<and> doc ''start_date'' = Some (of_opt (start_date a))
        \<and> (start_date a = None \<longrightarrow> doc ''start_date'' = Some PNone)
        \<and> doc ''expiration_date'' = Some (PStr (expiration_date a))
        \<and> doc ''created_by'' = Some (PStr teacher_username)
        \<and> doc ''created_at'' = Some (PStr now_iso)
        \<and> doc ''_id'' = Some (PStr (str inserted_id))
        \<and> coll' = coll @ [doc(''_id'' \<mapsto> inserted_id)])"
proof (intro conjI impI allI)
  assume "find_one teachers (PStr teacher_username) = Some teacher \<and> create_validate decimal a = Inr ()"
  then show "\<exists>doc coll'. create_announcement decimal a teacher_username now_iso inserted_id teachers coll
                          = (Inr doc, coll')"
    by (simp add: create_announcement_def Let_def)
next
  fix doc coll'
  assume "create_announcement decimal a teacher_username now_iso inserted_id teachers coll = (Inr doc, coll')"
  then have d: "doc = (announcement_doc_of a teacher_username now_iso)(''_id'' \<mapsto> PStr (str inserted_id))"
    and c: "coll' = coll @ [(announcement_doc_of a teacher_username now_iso)(''_id'' \<mapsto> inserted_id)]"
    by (auto simp: create_announcement_def insert_one_def Let_def split: option.splits sum.splits)
  show "dom doc = {''title'', ''message'', ''start_date'', ''expiration_date'', ''created_by'',
                   ''created_at'', ''_id''}"
    unfolding d by (auto simp: dom_announcement_doc_of)
  show "doc ''title'' = Some (PStr (title a))"
    "doc ''message'' = Some (PStr (message a))"
    "doc ''start_date'' = Some (of_opt (start_date a))"
    "doc ''expiration_date'' = Some (PStr (expiration_date a))"
    "doc ''created_by'' = Some (PStr teacher_username)"
    "doc ''created_at'' = Some (PStr now_iso)"
    "doc ''_id'' = Some (PStr (str inserted_id))"
    unfolding d by (simp_all add: announcement_doc_of_def)
  then show "doc ''start_date'' = Some PNone" if "start_date a = None"
    using that by simp
  show "coll' = coll @ [doc(''_id'' \<mapsto> inserted_id)]"
    unfolding c d by simp
qed

theorem created_record_fields_witness:
  "find_one [teacher_t1] (PStr ''t1'') = Some teacher_t1
   \<and> create_validate unicode_decimal req_no_start = Inr ()
   \<and> (\<exists>doc. create_announcement unicode_decimal req_no_start ''t1'' ''2025-01-01T08:00:00+00:00''
               (PObjectId ''65a1'') [teacher_t1] [ann_exam]
             = (Inr doc, [ann_exam, doc(''_id'' \<mapsto> PObjectId ''65a1'')])
        \<and> dom doc = {''title'', ''message'', ''start_date'', ''expiration_date'', ''created_by'',
                     ''created_at'', ''_id''}
        \<and> doc ''start_date'' = Some PNone
        \<and> doc ''created_by'' = Some (PStr ''t1'')
        \<and> doc ''created_at'' = Some (PStr ''2025-01-01T08:00:00+00:00'')
        \<and> doc ''_id'' = Some (PStr ''65a1''))"
proof -
  have v: "create_validate unicode_decimal req_no_start = Inr ()"
    by (simp add: create_validate_def req_no_start_def strptime_examples)
  have n: "start_date req_no_start = None"
    by (simp add: req_no_start_def)
  note th = created_record_fields[of "[teacher_t1]" "''t1''" teacher_t1 unicode_decimal req_no_start
      "''2025-01-01T08:00:00+00:00''" "PObjectId ''65a1''" "[ann_exam]"]
  from th[THEN conjunct1] find_teacher_t1 v obtain doc coll' where
    c: "create_announcement unicode_decimal req_no_start ''t1'' ''2025-01-01T08:00:00+00:00''
               (PObjectId ''65a1'') [teacher_t1] [ann_exam] = (Inr doc, coll')"
    by blast
  note p = th[THEN conjunct2, THEN spec, THEN spec, THEN mp, OF c]
  from p n have "doc ''start_date'' = Some PNone" by simp
  with p c find_teacher_t1 v show ?thesis
    by (intro conjI exI[of _ doc]) simp_all
qed

end
